theory Spec2Isabelle
  imports Main
begin

section \<open>Python strings\<close>

text \<open>
  A Python \<open>str\<close> is modelled by the \<open>string\<close> of its UTF-8 bytes.  The separators the
  workflow splits on (\<open>,\<close> and \<open>:\<close>) and the blank line it joins with are ASCII, so
  \<open>split\<close> and \<open>join\<close> act on the bytes as Python acts on the code points.  \<open>strip\<close>,
  \<open>lower\<close> and \<open>int\<close> are modelled on the ASCII range: bytes above 127 are left as they
  are, are not whitespace and are not digits.  (No text with a character outside ASCII
  lower-cases to one of the seven operation names, so the token comparisons are the
  same.)
\<close>

definition isspace :: "char \<Rightarrow> bool" where
  \<comment> \<open>\<open>str.isspace\<close> below 128: TAB, LF, VT, FF, CR, FS, GS, RS, US and the space.\<close>
  "isspace c \<longleftrightarrow> (let n = (of_char c :: nat) in (9 \<le> n \<and> n \<le> 13) \<or> (28 \<le> n \<and> n \<le> 32))"

definition lstrip :: "string \<Rightarrow> string" where
  "lstrip s = dropWhile isspace s"

definition rstrip :: "string \<Rightarrow> string" where
  "rstrip s = rev (dropWhile isspace (rev s))"

definition strip :: "string \<Rightarrow> string" where
  "strip s = rstrip (lstrip s)"

definition lower_char :: "char \<Rightarrow> char" where
  "lower_char c =
     (case map_of (zip ''ABCDEFGHIJKLMNOPQRSTUVWXYZ'' ''abcdefghijklmnopqrstuvwxyz'') c of
        Some d \<Rightarrow> d
      | None \<Rightarrow> c)"

definition lower :: "string \<Rightarrow> string" where
  "lower s = map lower_char s"

text \<open>
  \<open>s.split(sep)\<close> for a one-character separator, as a scan from the left: \<open>cur\<close> is
  the piece being read.  There is one more piece than there are separators.
\<close>

fun split_from :: "char \<Rightarrow> string \<Rightarrow> string \<Rightarrow> string list" where
  "split_from sep cur [] = [cur]"
| "split_from sep cur (c # cs) =
     (if c = sep then cur # split_from sep [] cs else split_from sep (cur @ [c]) cs)"

definition split :: "char \<Rightarrow> string \<Rightarrow> string list" where
  "split sep s = split_from sep [] s"

text \<open>\<open>sep.join(xs)\<close>.\<close>

fun join :: "string \<Rightarrow> string list \<Rightarrow> string" where
  "join sep [] = []"
| "join sep [x] = x"
| "join sep (x # y # ys) = x @ sep @ join sep (y # ys)"

subsection \<open>The \<open>int\<close> builtin on a string\<close>

datatype error =
    ValueError string
  | ActivityError string
  | AgentError string

fun str_error :: "error \<Rightarrow> string" where
  "str_error (ValueError m) = m"
| "str_error (ActivityError m) = m"
| "str_error (AgentError m) = m"

definition isdigit :: "char \<Rightarrow> bool" where
  "isdigit c \<longleftrightarrow> (let n = (of_char c :: nat) in 48 \<le> n \<and> n \<le> 57)"

definition digit_val :: "char \<Rightarrow> int" where
  "digit_val c = int (of_char c) - 48"

text \<open>
  The digits of a base-10 literal: digits, with single underscores allowed between
  two digits.  \<open>digits_value acc s\<close> is \<open>None\<close> where the literal is malformed.
\<close>

fun digits_value :: "int \<Rightarrow> string \<Rightarrow> int option" where
  "digits_value acc [] = None"
| "digits_value acc [c] = (if isdigit c then Some (10 * acc + digit_val c) else None)"
| "digits_value acc (c # d # cs) =
     (if \<not> isdigit c then None
      else if d = CHR ''_'' then
        (case cs of [] \<Rightarrow> None
         | e # _ \<Rightarrow> if isdigit e then digits_value (10 * acc + digit_val c) cs else None)
      else digits_value (10 * acc + digit_val c) (d # cs))"

definition hex_digit :: "nat \<Rightarrow> char" where
  "hex_digit n = ''0123456789abcdef'' ! n"

definition repr_char :: "char \<Rightarrow> char \<Rightarrow> string" where
  "repr_char q c =
     (let n = (of_char c :: nat) in
      if c = CHR 0x5C then [CHR 0x5C, CHR 0x5C]
      else if c = q then [CHR 0x5C, q]
      else if n = 9 then [CHR 0x5C, CHR ''t'']
      else if n = 10 then [CHR 0x5C, CHR ''n'']
      else if n = 13 then [CHR 0x5C, CHR ''r'']
      else if n < 32 \<or> n = 127 then [CHR 0x5C, CHR ''x'', hex_digit (n div 16), hex_digit (n mod 16)]
      else [c])"

definition repr :: "string \<Rightarrow> string" where
  \<comment> \<open>\<open>repr\<close> of a \<open>str\<close>: double quotes only when the text has a single quote and no double one.\<close>
  "repr s =
     (let q = (if CHR 0x27 \<in> set s \<and> CHR 0x22 \<notin> set s then CHR 0x22 else CHR 0x27)
      in [q] @ concat (map (repr_char q) s) @ [q])"

definition c_isspace :: "char \<Rightarrow> bool" where
  \<comment> \<open>The whitespace \<open>int\<close> skips around an ASCII literal: TAB, LF, VT, FF, CR and the
      space, but not FS, GS, RS, US.\<close>
  "c_isspace c \<longleftrightarrow> (let n = (of_char c :: nat) in (9 \<le> n \<and> n \<le> 13) \<or> n = 32)"

definition py_int :: "string \<Rightarrow> error + int" where
  \<comment> \<open>\<open>int(s)\<close>: surrounding whitespace, an optional sign, the digits; else \<open>ValueError\<close>
      with CPython's message (the \<open>repr\<close> cut at 200 characters).  The limit that newer
      CPython versions put on the number of digits is not modelled.\<close>
  "py_int s =
     (let t = rev (dropWhile c_isspace (rev (dropWhile c_isspace s)));
          neg = (t \<noteq> [] \<and> hd t = CHR ''-'');
          body = (if t \<noteq> [] \<and> (hd t = CHR ''-'' \<or> hd t = CHR ''+'') then tl t else t)
      in case digits_value 0 body of
           None \<Rightarrow> Inl (ValueError (''invalid literal for int() with base 10: '' @ take 200 (repr s)))
         | Some v \<Rightarrow> Inr (if neg then - v else v))"

section \<open>The workflow of \<open>src/unified_agent/workflow.py\<close>\<close>

text \<open>
  The activities the worker registers, named after their functions:
  \<open>unified_orchestrator_activity\<close>, \<open>get_container_status_activity\<close>,
  \<open>check_container_health_activity\<close>, \<open>get_container_logs_activity\<close>,
  \<open>restart_container_activity\<close>, \<open>get_time_activity\<close>, \<open>get_weather_activity\<close>
  and \<open>get_fact_activity\<close>.
\<close>

datatype activity =
    Orchestrator
  | ContainerStatus
  | ContainerHealth
  | ContainerLogs
  | RestartContainer
  | GetTime
  | GetWeather
  | GetFact

datatype pyval = PNone | PStr string | PInt int

record RetryPolicy =
  maximum_attempts :: nat

text \<open>
  One \<open>workflow.execute_activity\<close> call as the workflow writes it: the activity, its
  arguments, \<open>start_to_close_timeout\<close> in seconds, and the \<open>retry_policy\<close> argument
  (\<open>None\<close> where the call passes none).
\<close>

record activity_call =
  activity :: activity
  args :: "pyval list"
  start_to_close_timeout :: nat
  retry_policy :: "RetryPolicy option"

text \<open>
  The execution substrate runs a call against the outside world \<open>'w\<close>: it returns the
  activity's text, or the exception that \<open>execute_activity\<close> raises in the workflow
  once the substrate has given up, and the world after the call.  How often the
  substrate tries an activity is its own business; the workflow only hands it the
  policy.  Cancellation of the workflow, which \<open>except Exception\<close> does not catch, is
  not modelled.
\<close>

type_synonym 'w substrate = "activity_call \<Rightarrow> 'w \<Rightarrow> (error + string) \<times> 'w"

definition of_param :: "string option \<Rightarrow> pyval" where
  "of_param p = (case p of None \<Rightarrow> PNone | Some s \<Rightarrow> PStr s)"

definition truthy :: "string option \<Rightarrow> bool" where
  \<comment> \<open>Python's truth value of \<open>None\<close> or a \<open>str\<close>.\<close>
  "truthy p \<longleftrightarrow> (case p of None \<Rightarrow> False | Some s \<Rightarrow> s \<noteq> [])"

definition operations :: "string \<Rightarrow> string list" where
  \<comment> \<open>\<open>[op.strip() for op in plan.split(',') if op.strip()]\<close>\<close>
  "operations plan = map strip (filter (\<lambda>op. strip op \<noteq> []) (split CHR '','' plan))"

definition param :: "string list \<Rightarrow> nat \<Rightarrow> string option" where
  \<comment> \<open>\<open>parts[i] if len(parts) > i else None\<close>\<close>
  "param parts i = (if length parts > i then Some (parts ! i) else None)"

text \<open>What the body of the \<open>try\<close> does with one segment, before anything is awaited.\<close>

datatype dispatched =
    Invoke activity_call  \<comment> \<open>a branch that awaits \<open>execute_activity\<close>\<close>
  | Skipped  \<comment> \<open>no branch for the segment: no activity\<close>
  | Raises error  \<comment> \<open>an exception raised before any activity is awaited\<close>

definition dispatch :: "string \<Rightarrow> dispatched" where
  "dispatch op_spec =
     (let parts = split CHR '':'' op_spec;
          op_type = lower (hd parts);
          param1 = param parts 1;
          param2 = param parts 2
      in
      if op_type = ''status'' then
        Invoke \<lparr>activity = ContainerStatus, args = [of_param param1],
                start_to_close_timeout = 10, retry_policy = None\<rparr>
      else if op_type = ''health'' then
        Invoke \<lparr>activity = ContainerHealth, args = [of_param param1],
                start_to_close_timeout = 15, retry_policy = None\<rparr>
      else if op_type = ''logs'' then
        (case (if truthy param2 then py_int (the param2) else Inr 100) of
           Inl e \<Rightarrow> Raises e
         | Inr lines \<Rightarrow>
             Invoke \<lparr>activity = ContainerLogs, args = [of_param param1, PInt lines],
                     start_to_close_timeout = 10, retry_policy = None\<rparr>)
      else if op_type = ''restart'' then
        Invoke \<lparr>activity = RestartContainer, args = [of_param param1],
                start_to_close_timeout = 30,
                retry_policy = Some \<lparr>maximum_attempts = 5\<rparr>\<rparr>
      else if op_type = ''time'' then
        Invoke \<lparr>activity = GetTime, args = [],
                start_to_close_timeout = 5, retry_policy = None\<rparr>
      else if op_type = ''weather'' \<and> truthy param1 then
        Invoke \<lparr>activity = GetWeather, args = [of_param param1],
                start_to_close_timeout = 10, retry_policy = None\<rparr>
      else if op_type = ''fact'' \<and> truthy param1 then
        Invoke \<lparr>activity = GetFact, args = [of_param param1],
                start_to_close_timeout = 20, retry_policy = None\<rparr>
      else Skipped)"

definition failure_entry :: "string \<Rightarrow> error \<Rightarrow> string" where
  \<comment> \<open>The f-string of the \<open>except\<close> branch; it opens with the cross mark U+274C.\<close>
  "failure_entry op_spec e =
     [CHR 0xE2, CHR 0x9D, CHR 0x8C] @ '' Step '' @ [CHR 0x27] @ op_spec @ [CHR 0x27]
       @ '' failed: '' @ str_error e"

text \<open>
  One iteration of the loop: the entry appended to \<open>results\<close>, the calls made, and the
  world afterwards.
\<close>

definition execute_step :: "'w substrate \<Rightarrow> string \<Rightarrow> 'w \<Rightarrow> string \<times> activity_call list \<times> 'w" where
  "execute_step ex op_spec w =
     (case dispatch op_spec of
        Invoke c \<Rightarrow>
          (case ex c w of
             (Inr result, w') \<Rightarrow> (result, [c], w')
           | (Inl e, w') \<Rightarrow> (failure_entry op_spec e, [c], w'))
      | Skipped \<Rightarrow> (''Skipped unknown operation: '' @ op_spec, [], w)
      | Raises e \<Rightarrow> (failure_entry op_spec e, [], w))"

text \<open>The \<open>for\<close> loop, with \<open>results\<close>, the calls made so far and the world as its state.\<close>

fun run_loop :: "'w substrate \<Rightarrow> string list \<Rightarrow> string list \<times> activity_call list \<times> 'w
    \<Rightarrow> string list \<times> activity_call list \<times> 'w" where
  "run_loop ex [] st = st"
| "run_loop ex (op_spec # ops) (results, calls, w) =
     (case execute_step ex op_spec w of
        (entry, cs, w') \<Rightarrow> run_loop ex ops (results @ [entry], calls @ cs, w'))"

definition planner_call :: "string \<Rightarrow> activity_call" where
  "planner_call task =
     \<lparr>activity = Orchestrator, args = [PStr task],
      start_to_close_timeout = 15, retry_policy = Some \<lparr>maximum_attempts = 2\<rparr>\<rparr>"

definition run :: "'w substrate \<Rightarrow> string \<Rightarrow> 'w \<Rightarrow> (error + string) \<times> activity_call list \<times> 'w" where
  \<comment> \<open>The planner call stands outside every \<open>try\<close>: what it raises leaves \<open>run\<close>.\<close>
  "run ex task w =
     (case ex (planner_call task) w of
        (Inl e, w1) \<Rightarrow> (Inl e, [planner_call task], w1)
      | (Inr plan, w1) \<Rightarrow>
          (case run_loop ex (operations plan) ([], [planner_call task], w1) of
             (results, calls, w2) \<Rightarrow> (Inr (join ''\<newline>\<newline>'' results), calls, w2)))"

subsection \<open>The planner activity\<close>

text \<open>
  The language model behind \<open>unified_orchestrator_activity\<close>: the imports and the
  construction of the \<open>Agent\<close> (\<open>None\<close> when they succeed, else what they raise), and
  the call \<open>agent(task)\<close> with the text of its answer.
\<close>

record planner_env =
  agent_setup :: "error option"
  agent_call :: "string \<Rightarrow> error + string"

definition unified_orchestrator_activity :: "planner_env \<Rightarrow> string \<Rightarrow> error + string" where
  \<comment> \<open>Only the call of the agent stands inside the \<open>try\<close>.\<close>
  "unified_orchestrator_activity env task =
     (case agent_setup env of
        Some e \<Rightarrow> Inl e
      | None \<Rightarrow>
          (case agent_call env task of
             Inr content \<Rightarrow> Inr (strip content)
           | Inl e \<Rightarrow> Inr ''status''))"

section \<open>The workflow of \<open>src/src/unified_agent/workflow.py\<close>\<close>

definition unified_orchestrator_activity_alt :: "planner_env \<Rightarrow> string \<Rightarrow> error + string" where
  \<comment> \<open>Here the \<open>try\<close> holds the imports and the construction too.\<close>
  "unified_orchestrator_activity_alt env task =
     (case agent_setup env of
        Some e \<Rightarrow> Inr ''status''
      | None \<Rightarrow>
          (case agent_call env task of
             Inr content \<Rightarrow> Inr (strip content)
           | Inl e \<Rightarrow> Inr ''status''))"





section \<open>The restart activity of \<open>docker_temporal_agent.py\<close>\<close>

text \<open>
  \<open>providers.infra_monitor.docker_utils\<close> is a parameter: what constructing the
  \<open>DockerClientWrapper\<close> raises (\<open>None\<close> when it succeeds), and its \<open>restart_container\<close>,
  which returns the \<open>success\<close> flag or raises.
\<close>

datatype docker_exn =
    ContainerNotFoundError string  \<comment> \<open>its \<open>container_name\<close>\<close>
  | DockerConnectionError string
  | OtherException string  \<comment> \<open>its \<open>str(e)\<close>\<close>

record docker_client =
  connect :: "docker_exn option"
  restart_container :: "string \<Rightarrow> docker_exn + bool"

datatype activity_exn =
    ApplicationError string bool  \<comment> \<open>the message and \<open>non_retryable\<close>\<close>
  | Reraised docker_exn

definition on_docker_exn :: "docker_exn \<Rightarrow> activity_exn" where
  \<comment> \<open>The three \<open>except\<close> clauses, in their order.\<close>
  "on_docker_exn e =
     (case e of
        ContainerNotFoundError n \<Rightarrow>
          ApplicationError (''Container '' @ [CHR 0x27] @ n @ [CHR 0x27] @ '' not found'') True
      | DockerConnectionError m \<Rightarrow> Reraised (DockerConnectionError m)
      | OtherException m \<Rightarrow> ApplicationError (''Unexpected error: '' @ m) True)"

definition restart_container_activity :: "docker_client \<Rightarrow> string \<Rightarrow> activity_exn + string" where
  \<comment> \<open>The first text opens with the check mark U+2713.\<close>
  "restart_container_activity docker container_name =
     (case connect docker of
        Some e \<Rightarrow> Inl (on_docker_exn e)
      | None \<Rightarrow>
          (case restart_container docker container_name of
             Inl e \<Rightarrow> Inl (on_docker_exn e)
           | Inr success \<Rightarrow>
               if success then
                 Inr ([CHR 0xE2, CHR 0x9C, CHR 0x93] @ '' Successfully restarted container ''
                      @ [CHR 0x27] @ container_name @ [CHR 0x27])
               else
                 Inr (''Container '' @ [CHR 0x27] @ container_name @ [CHR 0x27]
                      @ '' was restarted but may not be running properly'')))"

section \<open>Auxiliary definitions\<close>

text \<open>The world in which step \<open>i\<close> of the loop starts: the one the first \<open>i\<close> steps leave.\<close>

definition world_before :: "'w substrate \<Rightarrow> string list \<Rightarrow> nat \<Rightarrow> 'w \<Rightarrow> 'w" where
  "world_before ex ops i w = snd (snd (run_loop ex (take i ops) ([], [], w)))"

text \<open>
  A stub of the substrate for end-to-end scenarios: the planner step has the outcome
  \<open>planned\<close>, the restart fails, every other activity answers with a fixed text, and the
  world counts the calls made.
\<close>

definition stub_substrate :: "error + string \<Rightarrow> nat substrate" where
  "stub_substrate planned c n =
     (case activity c of
        Orchestrator \<Rightarrow> (planned, Suc n)
      | ContainerStatus \<Rightarrow> (Inr ''No containers found on this system'', Suc n)
      | ContainerHealth \<Rightarrow> (Inr ''No running containers found'', Suc n)
      | ContainerLogs \<Rightarrow> (Inr ''No logs found'', Suc n)
      | RestartContainer \<Rightarrow> (Inl (ActivityError ''Activity task failed''), Suc n)
      | GetTime \<Rightarrow> (Inr ''12:00'', Suc n)
      | GetWeather \<Rightarrow> (Inr ''Sunny'', Suc n)
      | GetFact \<Rightarrow> (Inr ''A fact'', Suc n))"

text \<open>
  The attempts the substrate makes for a call, \<open>None\<close> for no limit.  Temporal applies
  the server's default policy to a call without \<open>retry_policy\<close>, and that policy, like a
  \<open>RetryPolicy\<close> whose \<open>maximum_attempts\<close> is 0, does not limit the attempts.
\<close>

definition attempts_budget :: "RetryPolicy option \<Rightarrow> nat option" where
  "attempts_budget rp =
     (case rp of
        None \<Rightarrow> None
      | Some p \<Rightarrow> if maximum_attempts p = 0 then None else Some (maximum_attempts p))"

definition failing_agent :: planner_env where
  "failing_agent = \<lparr>agent_setup = None, agent_call = (\<lambda>task. Inl (AgentError ''throttled''))\<rparr>"

definition degraded_docker :: docker_client where
  "degraded_docker = \<lparr>connect = None, restart_container = (\<lambda>name. Inr False)\<rparr>"

text \<open>
  A substrate that runs the restart activity against a Docker client, one attempt for
  each call, and sends every other call to the stub.
\<close>

definition docker_substrate :: "docker_client \<Rightarrow> nat substrate" where
  "docker_substrate docker c n =
     (if activity c = RestartContainer then
        (case args c of
           [PStr name] \<Rightarrow>
             (case restart_container_activity docker name of
                Inr result \<Rightarrow> (Inr result, Suc n)
              | Inl e \<Rightarrow> (Inl (ActivityError ''Activity task failed''), Suc n))
         | _ \<Rightarrow> (Inl (ActivityError ''Activity task failed''), Suc n))
      else stub_substrate (Inr ''status'') c n)"

section \<open>Splitting and joining\<close>

lemma split_from_not_Nil: "split_from sep cur s \<noteq> []"
  by (induction s arbitrary: cur) auto

lemma join_Cons: "ps \<noteq> [] \<Longrightarrow> join sep (p # ps) = p @ sep @ join sep ps"
  by (cases ps) auto

lemma join_split_from: "join [sep] (split_from sep cur s) = cur @ s"
proof (induction s arbitrary: cur)
  case Nil
  then show ?case by simp
next
  case (Cons c cs)
  show ?case
  proof (cases "c = sep")
    case True
    then show ?thesis
      using Cons.IH [of "[]"] by (simp add: join_Cons split_from_not_Nil)
  next
    case False
    then show ?thesis
      using Cons.IH [of "cur @ [c]"] by simp
  qed
qed

lemma join_split: "join [sep] (split sep s) = s"
  by (simp add: split_def join_split_from)

section \<open>The step loop\<close>

lemma run_loop_append: "run_loop ex (xs @ ys) st = run_loop ex ys (run_loop ex xs st)"
proof (induction xs arbitrary: st)
  case Nil
  then show ?case by simp
next
  case (Cons x xs)
  obtain rs cs w where st: "st = (rs, cs, w)" by (cases st)
  show ?case
    by (simp add: st Cons.IH split: prod.splits)
qed

lemma run_loop_acc:
  "run_loop ex ops (rs, cs, w) =
     (case run_loop ex ops ([], [], w) of (rs', cs', w') \<Rightarrow> (rs @ rs', cs @ cs', w'))"
proof (induction ops arbitrary: rs cs w)
  case Nil
  then show ?case by simp
next
  case (Cons x xs)
  obtain e c1 w1 where step: "execute_step ex x w = (e, c1, w1)"
    by (cases "execute_step ex x w")
  obtain rs' cs' w' where rest: "run_loop ex xs ([], [], w1) = (rs', cs', w')"
    by (cases "run_loop ex xs ([], [], w1)")
  have a: "run_loop ex xs (rs @ [e], cs @ c1, w1) = ((rs @ [e]) @ rs', (cs @ c1) @ cs', w')"
    using Cons.IH [of "rs @ [e]" "cs @ c1" w1] by (simp add: rest)
  have b: "run_loop ex xs ([e], c1, w1) = ([e] @ rs', c1 @ cs', w')"
    using Cons.IH [of "[e]" c1 w1] by (simp add: rest)
  show ?case by (simp add: step a b)
qed

lemma run_loop_snoc:
  "run_loop ex (xs @ [x]) ([], [], w) =
     (case run_loop ex xs ([], [], w) of
        (rs, cs, w1) \<Rightarrow>
          (case execute_step ex x w1 of (e, c, w2) \<Rightarrow> (rs @ [e], cs @ c, w2)))"
  by (simp add: run_loop_append split: prod.splits)

lemma run_loop_length: "length (fst (run_loop ex ops ([], [], w))) = length ops"
  by (induction ops rule: rev_induct) (auto simp: run_loop_snoc split: prod.splits)

lemma run_loop_nth:
  "i < length ops \<Longrightarrow>
     fst (run_loop ex ops ([], [], w)) ! i =
       fst (execute_step ex (ops ! i) (world_before ex ops i w))"
proof (induction ops rule: rev_induct)
  case Nil
  then show ?case by simp
next
  case (snoc x xs)
  obtain rs cs w1 where xs: "run_loop ex xs ([], [], w) = (rs, cs, w1)"
    by (cases "run_loop ex xs ([], [], w)")
  have len: "length rs = length xs"
    using run_loop_length [of ex xs w] by (simp add: xs)
  show ?case
  proof (cases "i < length xs")
    case True
    then have "fst (run_loop ex xs ([], [], w)) ! i =
        fst (execute_step ex (xs ! i) (world_before ex xs i w))"
      by (rule snoc.IH)
    with True show ?thesis
      by (simp add: run_loop_snoc xs len nth_append world_before_def split: prod.splits)
  next
    case False
    with snoc.prems have "i = length xs" by simp
    then show ?thesis
      by (simp add: run_loop_snoc xs len nth_append world_before_def split: prod.splits)
  qed
qed

section \<open>Evaluation and parsing\<close>

lemmas string_eval = split_def strip_def lstrip_def rstrip_def isspace_def lower_def lower_char_def
lemmas int_eval = py_int_def c_isspace_def isdigit_def digit_val_def repr_def repr_char_def hex_digit_def Let_def
lemmas dispatch_eval = dispatch_def param_def truthy_def of_param_def
lemmas step_eval = execute_step_def failure_entry_def stub_substrate_def

lemma split_from_chars:
  "p \<in> set (split_from sep cur s) \<Longrightarrow> set p \<subseteq> set cur \<union> (set s - {sep})"
proof (induction s arbitrary: cur)
  case Nil
  then show ?case by simp
next
  case (Cons c cs)
  show ?case
  proof (cases "c = sep")
    case True
    with Cons.prems have "p = cur \<or> p \<in> set (split_from sep [] cs)" by simp
    then show ?thesis
      using Cons.IH [of "[]"] by auto
  next
    case False
    with Cons.prems have "p \<in> set (split_from sep (cur @ [c]) cs)" by simp
    then show ?thesis
      using Cons.IH [of "cur @ [c]"] False by auto
  qed
qed



lemma run_returns:
  "ex (planner_call task) w = (Inr plan, w1) \<Longrightarrow>
     run ex task w =
       (Inr (join ''\<newline>\<newline>'' (fst (run_loop ex (operations plan) ([], [], w1)))),
        planner_call task # fst (snd (run_loop ex (operations plan) ([], [], w1))),
        snd (snd (run_loop ex (operations plan) ([], [], w1))))"
  by (simp add: run_def run_loop_acc [of ex _ "[]" "[planner_call task]"] split: prod.splits)

lemma run_raises:
  "ex (planner_call task) w = (Inl e, w1) \<Longrightarrow> run ex task w = (Inl e, [planner_call task], w1)"
  by (simp add: run_def)

lemma execute_step_calls:
  "dispatch op_spec = Invoke c \<Longrightarrow> fst (snd (execute_step ex op_spec w)) = [c]"
  by (simp add: execute_step_def split: prod.splits sum.splits)

lemma run_loop_Cons:
  "run_loop ex (op_spec # ops) (results, calls, w) =
     run_loop ex ops
       (results @ [fst (execute_step ex op_spec w)],
        calls @ fst (snd (execute_step ex op_spec w)),
        snd (snd (execute_step ex op_spec w)))"
  by (simp split: prod.splits)

lemma run_loop_calls:
  "op_spec \<in> set ops \<Longrightarrow> dispatch op_spec = Invoke c \<Longrightarrow>
     c \<in> set (fst (snd (run_loop ex ops (results, calls, w))))"
proof (induction ops arbitrary: results calls w)
  case Nil
  then show ?case by simp
next
  case (Cons x xs)
  let ?st = "(results @ [fst (execute_step ex x w)],
        calls @ fst (snd (execute_step ex x w)), snd (snd (execute_step ex x w)))"
  show ?case
  proof (cases "op_spec = x")
    case True
    obtain rs' cs' w' where rest: "run_loop ex xs ([], [], snd (snd (execute_step ex x w))) = (rs', cs', w')"
      by (cases "run_loop ex xs ([], [], snd (snd (execute_step ex x w)))")
    have "fst (snd (execute_step ex x w)) = [c]"
      using Cons.prems(2) True by (simp add: execute_step_calls)
    then show ?thesis
      by (simp only: run_loop_Cons) (simp add: run_loop_acc [of ex xs "results @ _"] rest)
  next
    case False
    with Cons.prems have "op_spec \<in> set xs" by simp
    then show ?thesis
      using Cons.IH Cons.prems(2) by (simp only: run_loop_Cons)
  qed
qed


lemma dispatch_status:
  "dispatch ''status'' =
     Invoke \<lparr>activity = ContainerStatus, args = [PNone], start_to_close_timeout = 10,
             retry_policy = None\<rparr>"
  by (simp add: dispatch_eval string_eval)

section \<open>Truncated segments\<close>

lemma split_from_no_sep:
  "sep \<notin> set p \<Longrightarrow> split_from sep cur (p @ s) = split_from sep (cur @ p) s"
  by (induction p arbitrary: cur) auto

lemma split_join:
  "ps \<noteq> [] \<Longrightarrow> \<forall>p \<in> set ps. sep \<notin> set p \<Longrightarrow> split sep (join [sep] ps) = ps"
proof (induction ps rule: list_nonempty_induct)
  case (single x)
  then show ?case
    using split_from_no_sep [of sep x "[]" "[]"] by (simp add: split_def)
next
  case (cons x xs)
  then have "split_from sep [] (join [sep] xs) = xs"
    by (simp add: split_def)
  then show ?case
    using cons split_from_no_sep [of sep x "[]" "sep # join [sep] xs"]
    by (simp add: split_def join_Cons)
qed

lemma split_pieces_no_sep: "p \<in> set (split sep s) \<Longrightarrow> sep \<notin> set p"
  using split_from_chars [of p sep "[]" s] by (auto simp add: split_def)

lemma split_truncated:
  "split sep (join [sep] (take (Suc n) (split sep s))) = take (Suc n) (split sep s)"
proof (rule split_join)
  show "take (Suc n) (split sep s) \<noteq> []"
    by (simp add: split_def split_from_not_Nil)
  show "\<forall>p \<in> set (take (Suc n) (split sep s)). sep \<notin> set p"
    using split_pieces_no_sep [of _ sep s] by (auto dest: in_set_takeD)
qed

lemma dispatch_parts:
  assumes "hd (split CHR '':'' a) = hd (split CHR '':'' b)"
    and "param (split CHR '':'' a) 1 = param (split CHR '':'' b) 1"
    and "param (split CHR '':'' a) 2 = param (split CHR '':'' b) 2"
  shows "dispatch a = dispatch b"
  by (simp only: dispatch_def Let_def assms)

lemma dispatch_truncated:
  "dispatch (join '':'' (take 3 (split CHR '':'' op_spec))) = dispatch op_spec"
proof (rule dispatch_parts)
  let ?ps = "split CHR '':'' op_spec"
  have t: "split CHR '':'' (join '':'' (take 3 ?ps)) = take 3 ?ps"
    using split_truncated [of "CHR '':''" 2 op_spec] by (simp add: numeral_3_eq_3)
  have ne: "?ps \<noteq> []"
    by (simp add: split_def split_from_not_Nil)
  show "hd (split CHR '':'' (join '':'' (take 3 ?ps))) = hd ?ps"
    unfolding t using ne by (cases ?ps) simp_all
  show "param (split CHR '':'' (join '':'' (take 3 ?ps))) 1 = param ?ps 1"
    unfolding t by (simp add: param_def)
  show "param (split CHR '':'' (join '':'' (take 3 ?ps))) 2 = param ?ps 2"
    unfolding t by (simp add: param_def)
qed

lemma execute_step_truncated:
  "snd (execute_step ex (join '':'' (take 3 (split CHR '':'' op_spec))) w) =
     snd (execute_step ex op_spec w)"
  by (simp add: execute_step_def dispatch_truncated split: dispatched.splits prod.splits sum.splits)

section \<open>The other workflow\<close>





section \<open>The claims\<close>



text \<open>
  C1.  When the planner step returns a plan text, the report joins the results of the
  loop; there is one result for each parsed operation, the \<open>i\<close>-th result is the entry
  that executing the \<open>i\<close>-th operation gives in the world the earlier steps left, and the
  operations are the trimmed non-blank segments of the plan text in the order in which
  the text holds them.
\<close>

theorem results_follow_plan:
  assumes "ex (planner_call task) w = (Inr plan, w1)"
  shows "fst (run ex task w) = Inr (join ''\<newline>\<newline>'' (fst (run_loop ex (operations plan) ([], [], w1))))
    \<and> length (fst (run_loop ex (operations plan) ([], [], w1))) = length (operations plan)
    \<and> (\<forall>i < length (operations plan).
          fst (run_loop ex (operations plan) ([], [], w1)) ! i =
            fst (execute_step ex (operations plan ! i) (world_before ex (operations plan) i w1)))
    \<and> operations plan = map strip (filter (\<lambda>seg. strip seg \<noteq> []) (split CHR '','' plan))
    \<and> join '','' (split CHR '','' plan) = plan"
  using assms
  by (simp add: run_returns run_loop_length run_loop_nth join_split operations_def [symmetric])

theorem results_follow_plan_witness:
  "stub_substrate (Inr ''time, weather:London'') (planner_call ''what time is it'') 0
     = (Inr ''time, weather:London'', Suc 0)
   \<and> operations ''time, weather:London'' = [''time'', ''weather:London'']
   \<and> fst (run (stub_substrate (Inr ''time, weather:London'')) ''what time is it'' 0)
       = Inr ''12:00\<newline>\<newline>Sunny''
   \<and> fst (run_loop (stub_substrate (Inr ''time, weather:London'')) [''time'', ''weather:London'']
          ([], [], Suc 0)) = [''12:00'', ''Sunny'']
   \<and> fst (execute_step (stub_substrate (Inr ''time, weather:London'')) ''weather:London''
          (world_before (stub_substrate (Inr ''time, weather:London''))
             [''time'', ''weather:London''] (Suc 0) (Suc 0))) = ''Sunny''"
proof -
  let ?ex = "stub_substrate (Inr ''time, weather:London'')"
  have h: "?ex (planner_call ''what time is it'') 0 = (Inr ''time, weather:London'', Suc 0)"
    by (simp add: stub_substrate_def planner_call_def)
  have ops: "operations ''time, weather:London'' = [''time'', ''weather:London'']"
    by (simp add: operations_def string_eval)
  have loop: "run_loop ?ex [''time'', ''weather:London''] ([], [], Suc 0)
      = ([''12:00'', ''Sunny''],
         [\<lparr>activity = GetTime, args = [], start_to_close_timeout = 5, retry_policy = None\<rparr>,
          \<lparr>activity = GetWeather, args = [PStr ''London''], start_to_close_timeout = 10,
           retry_policy = None\<rparr>], Suc (Suc (Suc 0)))"
    by (simp add: step_eval dispatch_eval string_eval)
  have t: "fst (run ?ex ''what time is it'' 0)
        = Inr (join ''\<newline>\<newline>'' (fst (run_loop ?ex [''time'', ''weather:London''] ([], [], Suc 0))))
      \<and> (\<forall>i < length [''time'', ''weather:London''].
          fst (run_loop ?ex [''time'', ''weather:London''] ([], [], Suc 0)) ! i =
            fst (execute_step ?ex ([''time'', ''weather:London''] ! i)
              (world_before ?ex [''time'', ''weather:London''] i (Suc 0))))"
    using results_follow_plan [of ?ex "''what time is it''" 0 "''time, weather:London''" "Suc 0"] h
    unfolding ops by blast
  then have "fst (run_loop ?ex [''time'', ''weather:London''] ([], [], Suc 0)) ! Suc 0 =
            fst (execute_step ?ex ([''time'', ''weather:London''] ! Suc 0)
              (world_before ?ex [''time'', ''weather:London''] (Suc 0) (Suc 0)))"
    by simp
  then have last: "fst (execute_step ?ex ''weather:London''
              (world_before ?ex [''time'', ''weather:London''] (Suc 0) (Suc 0))) = ''Sunny''"
    unfolding loop by simp
  from t have "fst (run ?ex ''what time is it'' 0) = Inr ''12:00\<newline>\<newline>Sunny''"
    unfolding loop by simp
  with h ops loop last show ?thesis by simp
qed

text \<open>
  C2.  An exception in a step, whether \<open>execute_activity\<close> raises it or the body raises
  it before any activity is awaited, becomes the entry of that step: the cross mark,
  the segment text between quotes, and the message of the exception.  Whatever the
  entry of a step is, the loop goes on with the remaining steps, and every later step
  that dispatches to an activity has its call made.
\<close>

theorem step_errors_become_entries:
  "(dispatch op_spec = Invoke c \<longrightarrow> ex c w = (Inl e, w') \<longrightarrow>
      execute_step ex op_spec w =
        ([CHR 0xE2, CHR 0x9D, CHR 0x8C] @ '' Step '' @ [CHR 0x27] @ op_spec @ [CHR 0x27]
           @ '' failed: '' @ str_error e, [c], w'))
   \<and> (dispatch op_spec = Raises e \<longrightarrow>
      execute_step ex op_spec w =
        ([CHR 0xE2, CHR 0x9D, CHR 0x8C] @ '' Step '' @ [CHR 0x27] @ op_spec @ [CHR 0x27]
           @ '' failed: '' @ str_error e, [], w))
   \<and> run_loop ex (op_spec # ops) (results, calls, w) =
       run_loop ex ops
         (results @ [fst (execute_step ex op_spec w)],
          calls @ fst (snd (execute_step ex op_spec w)),
          snd (snd (execute_step ex op_spec w)))
   \<and> (later \<in> set ops \<longrightarrow> dispatch later = Invoke c' \<longrightarrow>
        c' \<in> set (fst (snd (run_loop ex (op_spec # ops) (results, calls, w)))))"
proof (intro conjI impI)
  show "execute_step ex op_spec w =
        ([CHR 0xE2, CHR 0x9D, CHR 0x8C] @ '' Step '' @ [CHR 0x27] @ op_spec @ [CHR 0x27]
           @ '' failed: '' @ str_error e, [c], w')"
    if "dispatch op_spec = Invoke c" and "ex c w = (Inl e, w')"
    using that by (simp add: execute_step_def failure_entry_def)
  show "execute_step ex op_spec w =
        ([CHR 0xE2, CHR 0x9D, CHR 0x8C] @ '' Step '' @ [CHR 0x27] @ op_spec @ [CHR 0x27]
           @ '' failed: '' @ str_error e, [], w)"
    if "dispatch op_spec = Raises e"
    using that by (simp add: execute_step_def failure_entry_def)
  show "run_loop ex (op_spec # ops) (results, calls, w) =
       run_loop ex ops
         (results @ [fst (execute_step ex op_spec w)],
          calls @ fst (snd (execute_step ex op_spec w)),
          snd (snd (execute_step ex op_spec w)))"
    by (rule run_loop_Cons)
  show "c' \<in> set (fst (snd (run_loop ex (op_spec # ops) (results, calls, w))))"
    if "later \<in> set ops" and "dispatch later = Invoke c'"
    using that by (simp only: run_loop_Cons) (rule run_loop_calls)
qed

theorem step_errors_become_entries_witness:
  "dispatch ''restart:cache'' =
      Invoke \<lparr>activity = RestartContainer, args = [PStr ''cache''], start_to_close_timeout = 30,
              retry_policy = Some \<lparr>maximum_attempts = 5\<rparr>\<rparr>
   \<and> stub_substrate (Inr ''restart:cache, health:cache'')
        \<lparr>activity = RestartContainer, args = [PStr ''cache''], start_to_close_timeout = 30,
         retry_policy = Some \<lparr>maximum_attempts = 5\<rparr>\<rparr> (Suc 0)
        = (Inl (ActivityError ''Activity task failed''), Suc (Suc 0))
   \<and> execute_step (stub_substrate (Inr ''restart:cache, health:cache'')) ''restart:cache'' (Suc 0)
        = ([CHR 0xE2, CHR 0x9D, CHR 0x8C] @ '' Step 'restart:cache' failed: Activity task failed'',
           [\<lparr>activity = RestartContainer, args = [PStr ''cache''], start_to_close_timeout = 30,
             retry_policy = Some \<lparr>maximum_attempts = 5\<rparr>\<rparr>], Suc (Suc 0))
   \<and> dispatch ''logs:api:abc'' =
        Raises (ValueError (''invalid literal for int() with base 10: '' @ [CHR 0x27] @ ''abc'' @ [CHR 0x27]))
   \<and> execute_step (stub_substrate (Inr ''logs:api:abc'')) ''logs:api:abc'' (Suc 0)
        = ([CHR 0xE2, CHR 0x9D, CHR 0x8C]
             @ '' Step 'logs:api:abc' failed: invalid literal for int() with base 10: ''
             @ [CHR 0x27] @ ''abc'' @ [CHR 0x27],
           [], Suc 0)
   \<and> dispatch ''health:cache'' =
        Invoke \<lparr>activity = ContainerHealth, args = [PStr ''cache''], start_to_close_timeout = 15,
                retry_policy = None\<rparr>
   \<and> \<lparr>activity = ContainerHealth, args = [PStr ''cache''], start_to_close_timeout = 15,
        retry_policy = None\<rparr>
        \<in> set (fst (snd (run_loop (stub_substrate (Inr ''restart:cache, health:cache''))
                  [''restart:cache'', ''health:cache''] ([], [], Suc 0))))
   \<and> fst (run_loop (stub_substrate (Inr ''restart:cache, health:cache''))
            [''restart:cache'', ''health:cache''] ([], [], Suc 0))
        = [[CHR 0xE2, CHR 0x9D, CHR 0x8C] @ '' Step 'restart:cache' failed: Activity task failed'',
           ''No running containers found'']"
proof -
  let ?ex = "stub_substrate (Inr ''restart:cache, health:cache'')"
  let ?restart = "\<lparr>activity = RestartContainer, args = [PStr ''cache''],
      start_to_close_timeout = 30, retry_policy = Some \<lparr>maximum_attempts = 5\<rparr>\<rparr>"
  let ?health = "\<lparr>activity = ContainerHealth, args = [PStr ''cache''],
      start_to_close_timeout = 15, retry_policy = None\<rparr>"
  let ?bad = "ValueError (''invalid literal for int() with base 10: '' @ [CHR 0x27] @ ''abc'' @ [CHR 0x27])"
  have d1: "dispatch ''restart:cache'' = Invoke ?restart"
    by (simp add: dispatch_eval string_eval)
  have d2: "dispatch ''health:cache'' = Invoke ?health"
    by (simp add: dispatch_eval string_eval)
  have d3: "dispatch ''logs:api:abc'' = Raises ?bad"
    by (simp add: dispatch_eval string_eval int_eval)
  have x1: "?ex ?restart (Suc 0) = (Inl (ActivityError ''Activity task failed''), Suc (Suc 0))"
    by (simp add: stub_substrate_def)
  note a = step_errors_become_entries [where op_spec = "''restart:cache''" and c = ?restart
      and ex = ?ex and w = "Suc 0" and e = "ActivityError ''Activity task failed''"
      and w' = "Suc (Suc 0)" and ops = "[''health:cache'']" and results = "[]" and calls = "[]"
      and later = "''health:cache''" and c' = ?health]
  note b = step_errors_become_entries [where op_spec = "''logs:api:abc''" and e = ?bad
      and ex = "stub_substrate (Inr ''logs:api:abc'')" and w = "Suc 0"]
  have s1: "execute_step ?ex ''restart:cache'' (Suc 0)
        = ([CHR 0xE2, CHR 0x9D, CHR 0x8C] @ '' Step 'restart:cache' failed: Activity task failed'',
           [?restart], Suc (Suc 0))"
    using a [THEN conjunct1, rule_format, OF d1 x1] by simp
  have s2: "execute_step (stub_substrate (Inr ''logs:api:abc'')) ''logs:api:abc'' (Suc 0)
        = ([CHR 0xE2, CHR 0x9D, CHR 0x8C]
             @ '' Step 'logs:api:abc' failed: invalid literal for int() with base 10: ''
             @ [CHR 0x27] @ ''abc'' @ [CHR 0x27],
           [], Suc 0)"
    using b [THEN conjunct2, THEN conjunct1, rule_format, OF d3] by simp
  have m: "''health:cache'' \<in> set [''health:cache'']"
    by simp
  have s3: "?health \<in> set (fst (snd (run_loop ?ex [''restart:cache'', ''health:cache'']
        ([], [], Suc 0))))"
    by (rule a [THEN conjunct2, THEN conjunct2, THEN conjunct2, rule_format, OF m d2])
  have s4: "execute_step ?ex ''health:cache'' (Suc (Suc 0))
      = (''No running containers found'', [?health], Suc (Suc (Suc 0)))"
    by (simp add: execute_step_def d2 stub_substrate_def)
  note e5 = a [THEN conjunct2, THEN conjunct2, THEN conjunct1]
  have s5: "fst (run_loop ?ex [''restart:cache'', ''health:cache''] ([], [], Suc 0))
        = [[CHR 0xE2, CHR 0x9D, CHR 0x8C] @ '' Step 'restart:cache' failed: Activity task failed'',
           ''No running containers found'']"
    unfolding e5 s1 by (simp add: s4)
  from d1 x1 s1 d3 s2 d2 s3 s5 show ?thesis by blast
qed



text \<open>
  C4, as the code has it.  The fallback is inside the planner activity: when the call of
  the agent raises, the activity returns the plan text \<open>status\<close> at once; when the
  imports or the construction of the agent raise, the activity raises.  A run whose
  planner step returns \<open>status\<close> executes that one step and returns its entry as the
  report.  A run whose planner step raises, as it does once the substrate has used the
  two attempts of the step, substitutes nothing: the exception leaves \<open>run\<close>.
\<close>

theorem planner_fallback_in_activity:
  "(agent_setup env = None \<longrightarrow> agent_call env task = Inl e \<longrightarrow>
      unified_orchestrator_activity env task = Inr ''status'')
   \<and> (agent_setup env = Some e \<longrightarrow> unified_orchestrator_activity env task = Inl e)
   \<and> (ex (planner_call task) w = (Inr ''status'', w1) \<longrightarrow>
        run ex task w =
          (Inr (fst (execute_step ex ''status'' w1)),
           planner_call task # fst (snd (execute_step ex ''status'' w1)),
           snd (snd (execute_step ex ''status'' w1))))
   \<and> (ex (planner_call task) w = (Inl e, w1) \<longrightarrow>
        run ex task w = (Inl e, [planner_call task], w1))"
proof (intro conjI impI)
  show "unified_orchestrator_activity env task = Inr ''status''"
    if "agent_setup env = None" and "agent_call env task = Inl e"
    using that by (simp add: unified_orchestrator_activity_def)
  show "unified_orchestrator_activity env task = Inl e" if "agent_setup env = Some e"
    using that by (simp add: unified_orchestrator_activity_def)
  show "run ex task w =
          (Inr (fst (execute_step ex ''status'' w1)),
           planner_call task # fst (snd (execute_step ex ''status'' w1)),
           snd (snd (execute_step ex ''status'' w1)))"
    if h: "ex (planner_call task) w = (Inr ''status'', w1)"
  proof -
    have ops: "operations ''status'' = [''status'']"
      by (simp add: operations_def string_eval)
    from h show ?thesis
      by (simp add: run_returns ops split: prod.splits)
  qed
  show "run ex task w = (Inl e, [planner_call task], w1)"
    if "ex (planner_call task) w = (Inl e, w1)"
    using that by (rule run_raises)
qed

theorem planner_fallback_in_activity_witness:
  "unified_orchestrator_activity failing_agent ''restart nginx'' = Inr ''status''
   \<and> unified_orchestrator_activity
        \<lparr>agent_setup = Some (AgentError ''no credentials''), agent_call = (\<lambda>task. Inr ''time'')\<rparr>
        ''restart nginx'' = Inl (AgentError ''no credentials'')
   \<and> run (stub_substrate (Inr ''status'')) ''restart nginx'' 0
       = (Inr ''No containers found on this system'',
          [planner_call ''restart nginx'',
           \<lparr>activity = ContainerStatus, args = [PNone], start_to_close_timeout = 10,
            retry_policy = None\<rparr>],
          Suc (Suc 0))
   \<and> run (stub_substrate (Inl (ActivityError ''Activity task timed out''))) ''restart nginx'' 0
       = (Inl (ActivityError ''Activity task timed out''), [planner_call ''restart nginx''], Suc 0)"
proof -
  let ?noagent = "\<lparr>agent_setup = Some (AgentError ''no credentials''),
      agent_call = (\<lambda>task. Inr ''time'')\<rparr>"
  let ?status = "\<lparr>activity = ContainerStatus, args = [PNone], start_to_close_timeout = 10,
      retry_policy = None\<rparr>"
  let ?down = "ActivityError ''Activity task timed out''"
  note a = planner_fallback_in_activity [where env = failing_agent and task = "''restart nginx''"
      and e = "AgentError ''throttled''"]
  note b = planner_fallback_in_activity [where env = ?noagent and task = "''restart nginx''"
      and e = "AgentError ''no credentials''"]
  note c = planner_fallback_in_activity [where ex = "stub_substrate (Inr ''status'')"
      and task = "''restart nginx''" and w = 0 and ?w1.0 = "Suc 0"]
  note d = planner_fallback_in_activity [where ex = "stub_substrate (Inl ?down)"
      and task = "''restart nginx''" and w = 0 and ?w1.0 = "Suc 0" and e = ?down]
  have s1: "unified_orchestrator_activity failing_agent ''restart nginx'' = Inr ''status''"
    using a [THEN conjunct1] by (simp add: failing_agent_def)
  have s2: "unified_orchestrator_activity ?noagent ''restart nginx''
      = Inl (AgentError ''no credentials'')"
    using b [THEN conjunct2, THEN conjunct1] by simp
  have p3: "stub_substrate (Inr ''status'') (planner_call ''restart nginx'') 0
      = (Inr ''status'', Suc 0)"
    by (simp add: stub_substrate_def planner_call_def)
  have e3: "execute_step (stub_substrate (Inr ''status'')) ''status'' (Suc 0)
      = (''No containers found on this system'', [?status], Suc (Suc 0))"
    by (simp add: execute_step_def dispatch_status stub_substrate_def)
  have s3: "run (stub_substrate (Inr ''status'')) ''restart nginx'' 0
       = (Inr ''No containers found on this system'',
          [planner_call ''restart nginx'', ?status], Suc (Suc 0))"
    using c [THEN conjunct2, THEN conjunct2, THEN conjunct1, rule_format, OF p3]
    unfolding e3 by simp
  have p4: "stub_substrate (Inl ?down) (planner_call ''restart nginx'') 0 = (Inl ?down, Suc 0)"
    by (simp add: stub_substrate_def planner_call_def)
  have s4: "run (stub_substrate (Inl ?down)) ''restart nginx'' 0
       = (Inl ?down, [planner_call ''restart nginx''], Suc 0)"
    by (rule d [THEN conjunct2, THEN conjunct2, THEN conjunct2, rule_format, OF p4])
  from s1 s2 s3 s4 show ?thesis by blast
qed

text \<open>
  With a planner step that fails, the run returns no report: it ends with the
  exception of the step.
\<close>

theorem planner_step_failure_counterexample:
  "run (stub_substrate (Inl (ActivityError ''Activity task failed''))) ''restart nginx'' 0
     = (Inl (ActivityError ''Activity task failed''), [planner_call ''restart nginx''], Suc 0)"
  by (simp add: run_def stub_substrate_def planner_call_def)




text \<open>
  C6, as the code has it.  A restart is dispatched with the retry policy of at most 5
  attempts.  Every other activity the loop dispatches (status, health, logs, time,
  weather, fact) is called without a retry policy.
\<close>

theorem retry_policy_of_dispatch:
  "(lower (hd (split CHR '':'' op_spec)) = ''restart'' \<longrightarrow>
      dispatch op_spec =
        Invoke \<lparr>activity = RestartContainer,
                args = [of_param (param (split CHR '':'' op_spec) 1)],
                start_to_close_timeout = 30,
                retry_policy = Some \<lparr>maximum_attempts = 5\<rparr>\<rparr>)
   \<and> (dispatch op_spec = Invoke c \<longrightarrow> activity c = RestartContainer \<longrightarrow>
        retry_policy c = Some \<lparr>maximum_attempts = 5\<rparr>)
   \<and> (dispatch op_spec = Invoke c \<longrightarrow> activity c \<noteq> RestartContainer \<longrightarrow>
        activity c \<in> {ContainerStatus, ContainerHealth, ContainerLogs, GetTime, GetWeather, GetFact}
        \<and> retry_policy c = None)"
proof (intro conjI impI)
  show "dispatch op_spec =
        Invoke \<lparr>activity = RestartContainer,
                args = [of_param (param (split CHR '':'' op_spec) 1)],
                start_to_close_timeout = 30,
                retry_policy = Some \<lparr>maximum_attempts = 5\<rparr>\<rparr>"
    if "lower (hd (split CHR '':'' op_spec)) = ''restart''"
    using that by (simp add: dispatch_def Let_def)
  show "retry_policy c = Some \<lparr>maximum_attempts = 5\<rparr>"
    if "dispatch op_spec = Invoke c" and "activity c = RestartContainer"
    using that by (auto simp add: dispatch_def Let_def split: if_splits sum.splits)
  show "activity c \<in> {ContainerStatus, ContainerHealth, ContainerLogs, GetTime, GetWeather, GetFact}"
    if "dispatch op_spec = Invoke c" and "activity c \<noteq> RestartContainer"
    using that by (auto simp add: dispatch_def Let_def split: if_splits sum.splits)
  show "retry_policy c = None"
    if "dispatch op_spec = Invoke c" and "activity c \<noteq> RestartContainer"
    using that by (auto simp add: dispatch_def Let_def split: if_splits sum.splits)
qed

theorem retry_policy_of_dispatch_witness:
  "lower (hd (split CHR '':'' ''Restart:nginx'')) = ''restart''
   \<and> dispatch ''Restart:nginx'' =
        Invoke \<lparr>activity = RestartContainer, args = [PStr ''nginx''],
                start_to_close_timeout = 30,
                retry_policy = Some \<lparr>maximum_attempts = 5\<rparr>\<rparr>
   \<and> dispatch ''time'' =
        Invoke \<lparr>activity = GetTime, args = [], start_to_close_timeout = 5,
                retry_policy = None\<rparr>
   \<and> retry_policy \<lparr>activity = RestartContainer, args = [PStr ''nginx''],
          start_to_close_timeout = 30, retry_policy = Some \<lparr>maximum_attempts = 5\<rparr>\<rparr>
        = Some \<lparr>maximum_attempts = 5\<rparr>
   \<and> retry_policy \<lparr>activity = GetTime, args = [], start_to_close_timeout = 5,
          retry_policy = None\<rparr> = None"
proof -
  let ?restart = "\<lparr>activity = RestartContainer, args = [PStr ''nginx''],
      start_to_close_timeout = 30, retry_policy = Some \<lparr>maximum_attempts = 5\<rparr>\<rparr>"
  let ?time = "\<lparr>activity = GetTime, args = [], start_to_close_timeout = 5,
      retry_policy = None\<rparr>"
  have t1: "lower (hd (split CHR '':'' ''Restart:nginx'')) = ''restart''"
    by (simp add: string_eval)
  have q1: "param (split CHR '':'' ''Restart:nginx'') 1 = Some ''nginx''"
    by (simp add: param_def string_eval)
  have d2: "dispatch ''time'' = Invoke ?time"
    by (simp add: dispatch_eval string_eval)
  note a = retry_policy_of_dispatch [where op_spec = "''Restart:nginx''" and c = ?restart]
  note b = retry_policy_of_dispatch [where op_spec = "''time''" and c = ?time]
  have s1: "dispatch ''Restart:nginx'' = Invoke ?restart"
    using a [THEN conjunct1, rule_format, OF t1] unfolding q1 by (simp add: of_param_def)
  have r1: "activity ?restart = RestartContainer"
    by simp
  have r2: "activity ?time \<noteq> RestartContainer"
    by simp
  have s2: "retry_policy ?restart = Some \<lparr>maximum_attempts = 5\<rparr>"
    by (rule a [THEN conjunct2, THEN conjunct1, rule_format, OF s1 r1])
  have s3: "retry_policy ?time = None"
    using b [THEN conjunct2, THEN conjunct2, rule_format, OF d2 r2] by blast
  from t1 s1 d2 s2 s3 show ?thesis by blast
qed

text \<open>
  The status call carries no retry policy, so its budget of attempts is not 1: the
  substrate's default applies to it.
\<close>

theorem status_retry_budget_counterexample:
  "dispatch ''status'' =
     Invoke \<lparr>activity = ContainerStatus, args = [PNone], start_to_close_timeout = 10,
             retry_policy = None\<rparr>
   \<and> attempts_budget (retry_policy \<lparr>activity = ContainerStatus, args = [PNone],
          start_to_close_timeout = 10, retry_policy = None\<rparr>) \<noteq> Some 1"
  by (simp add: dispatch_eval string_eval attempts_budget_def)



text \<open>
  C9.  Only the token and the first two parameters of a segment count: a segment and
  its first three colon-separated components joined again are dispatched alike, make the
  same calls and leave the same world, and give the same entry when the activity
  returns.  So \<open>logs:api:50:extra\<close> is dispatched as \<open>logs:api:50\<close> is.
\<close>

theorem extra_components_ignored:
  "dispatch op_spec = dispatch (join '':'' (take 3 (split CHR '':'' op_spec)))
   \<and> snd (execute_step ex op_spec w) =
       snd (execute_step ex (join '':'' (take 3 (split CHR '':'' op_spec))) w)
   \<and> (dispatch op_spec = Invoke c \<longrightarrow> ex c w = (Inr result, w') \<longrightarrow>
        execute_step ex op_spec w = (result, [c], w')
        \<and> execute_step ex (join '':'' (take 3 (split CHR '':'' op_spec))) w = (result, [c], w'))
   \<and> join '':'' (take 3 (split CHR '':'' ''logs:api:50:extra'')) = ''logs:api:50''
   \<and> dispatch ''logs:api:50:extra'' =
        Invoke \<lparr>activity = ContainerLogs, args = [PStr ''api'', PInt 50],
                start_to_close_timeout = 10, retry_policy = None\<rparr>"
proof (intro conjI impI)
  show "dispatch op_spec = dispatch (join '':'' (take 3 (split CHR '':'' op_spec)))"
    by (simp add: dispatch_truncated)
  show "snd (execute_step ex op_spec w) =
       snd (execute_step ex (join '':'' (take 3 (split CHR '':'' op_spec))) w)"
    by (simp add: execute_step_truncated)
  show "execute_step ex op_spec w = (result, [c], w')"
    if "dispatch op_spec = Invoke c" and "ex c w = (Inr result, w')"
    using that by (simp add: execute_step_def)
  show "execute_step ex (join '':'' (take 3 (split CHR '':'' op_spec))) w = (result, [c], w')"
    if "dispatch op_spec = Invoke c" and "ex c w = (Inr result, w')"
    using that by (simp add: execute_step_def dispatch_truncated)
  show "join '':'' (take 3 (split CHR '':'' ''logs:api:50:extra'')) = ''logs:api:50''"
    by (simp add: string_eval numeral_3_eq_3)
  show "dispatch ''logs:api:50:extra'' =
        Invoke \<lparr>activity = ContainerLogs, args = [PStr ''api'', PInt 50],
                start_to_close_timeout = 10, retry_policy = None\<rparr>"
    by (simp add: dispatch_eval string_eval int_eval)
qed

theorem extra_components_ignored_witness:
  "dispatch ''logs:api:50:extra'' =
      Invoke \<lparr>activity = ContainerLogs, args = [PStr ''api'', PInt 50],
              start_to_close_timeout = 10, retry_policy = None\<rparr>
   \<and> stub_substrate (Inr ''logs:api:50:extra'')
        \<lparr>activity = ContainerLogs, args = [PStr ''api'', PInt 50],
         start_to_close_timeout = 10, retry_policy = None\<rparr> (Suc 0)
       = (Inr ''No logs found'', Suc (Suc 0))
   \<and> execute_step (stub_substrate (Inr ''logs:api:50:extra'')) ''logs:api:50:extra'' (Suc 0)
       = (''No logs found'',
          [\<lparr>activity = ContainerLogs, args = [PStr ''api'', PInt 50],
            start_to_close_timeout = 10, retry_policy = None\<rparr>], Suc (Suc 0))
   \<and> execute_step (stub_substrate (Inr ''logs:api:50:extra'')) ''logs:api:50'' (Suc 0)
       = (''No logs found'',
          [\<lparr>activity = ContainerLogs, args = [PStr ''api'', PInt 50],
            start_to_close_timeout = 10, retry_policy = None\<rparr>], Suc (Suc 0))"
proof -
  let ?ex = "stub_substrate (Inr ''logs:api:50:extra'')"
  let ?logs = "\<lparr>activity = ContainerLogs, args = [PStr ''api'', PInt 50],
      start_to_close_timeout = 10, retry_policy = None\<rparr>"
  note a = extra_components_ignored [where op_spec = "''logs:api:50:extra''" and ex = ?ex
      and w = "Suc 0" and c = ?logs and result = "''No logs found''" and w' = "Suc (Suc 0)"]
  have d: "dispatch ''logs:api:50:extra'' = Invoke ?logs"
    by (rule a [THEN conjunct2, THEN conjunct2, THEN conjunct2, THEN conjunct2])
  have x: "?ex ?logs (Suc 0) = (Inr ''No logs found'', Suc (Suc 0))"
    by (simp add: stub_substrate_def)
  have j: "join '':'' (take 3 (split CHR '':'' ''logs:api:50:extra'')) = ''logs:api:50''"
    by (rule a [THEN conjunct2, THEN conjunct2, THEN conjunct2, THEN conjunct1])
  note s = a [THEN conjunct2, THEN conjunct2, THEN conjunct1, rule_format, OF d x]
  from s have s1: "execute_step ?ex ''logs:api:50:extra'' (Suc 0)
      = (''No logs found'', [?logs], Suc (Suc 0))"
    by (rule conjunct1)
  from s have s2: "execute_step ?ex ''logs:api:50'' (Suc 0)
      = (''No logs found'', [?logs], Suc (Suc 0))"
    unfolding j by (rule conjunct2)
  from d x s1 s2 show ?thesis by blast
qed

text \<open>
  C10.  When the restart of the Docker client returns without confirming that the
  container runs, the restart activity returns a text, not an exception; a step whose
  activity returns a text has that text as its entry; and this text is not a failure
  entry.
\<close>

theorem degraded_restart_returns_text:
  "(connect docker = None \<longrightarrow> restart_container docker container_name = Inr False \<longrightarrow>
      restart_container_activity docker container_name =
        Inr (''Container '' @ [CHR 0x27] @ container_name @ [CHR 0x27]
             @ '' was restarted but may not be running properly''))
   \<and> (dispatch op_spec = Invoke c \<longrightarrow> ex c w = (Inr result, w') \<longrightarrow>
        execute_step ex op_spec w = (result, [c], w'))
   \<and> ''Container '' @ [CHR 0x27] @ container_name @ [CHR 0x27]
        @ '' was restarted but may not be running properly'' \<noteq> failure_entry op_spec e"
proof (intro conjI impI)
  show "restart_container_activity docker container_name =
        Inr (''Container '' @ [CHR 0x27] @ container_name @ [CHR 0x27]
             @ '' was restarted but may not be running properly'')"
    if "connect docker = None" and "restart_container docker container_name = Inr False"
    using that by (simp add: restart_container_activity_def)
  show "execute_step ex op_spec w = (result, [c], w')"
    if "dispatch op_spec = Invoke c" and "ex c w = (Inr result, w')"
    using that by (simp add: execute_step_def)
  show "''Container '' @ [CHR 0x27] @ container_name @ [CHR 0x27]
        @ '' was restarted but may not be running properly'' \<noteq> failure_entry op_spec e"
    by (simp add: failure_entry_def)
qed

theorem degraded_restart_returns_text_witness:
  "restart_container_activity degraded_docker ''cache''
     = Inr ''Container 'cache' was restarted but may not be running properly''
   \<and> dispatch ''restart:cache'' =
        Invoke \<lparr>activity = RestartContainer, args = [PStr ''cache''],
                start_to_close_timeout = 30,
                retry_policy = Some \<lparr>maximum_attempts = 5\<rparr>\<rparr>
   \<and> execute_step (docker_substrate degraded_docker) ''restart:cache'' (Suc 0)
       = (''Container 'cache' was restarted but may not be running properly'',
          [\<lparr>activity = RestartContainer, args = [PStr ''cache''],
            start_to_close_timeout = 30,
            retry_policy = Some \<lparr>maximum_attempts = 5\<rparr>\<rparr>], Suc (Suc 0))"
proof -
  let ?restart = "\<lparr>activity = RestartContainer, args = [PStr ''cache''],
      start_to_close_timeout = 30, retry_policy = Some \<lparr>maximum_attempts = 5\<rparr>\<rparr>"
  let ?degraded = "''Container 'cache' was restarted but may not be running properly''"
  note a = degraded_restart_returns_text [where docker = degraded_docker
      and container_name = "''cache''" and op_spec = "''restart:cache''" and c = ?restart
      and ex = "docker_substrate degraded_docker" and w = "Suc 0" and result = ?degraded
      and w' = "Suc (Suc 0)"]
  have c1: "connect degraded_docker = None"
    by (simp add: degraded_docker_def)
  have c2: "restart_container degraded_docker ''cache'' = Inr False"
    by (simp add: degraded_docker_def)
  have s1: "restart_container_activity degraded_docker ''cache'' = Inr ?degraded"
    using a [THEN conjunct1, rule_format, OF c1 c2] by simp
  have d: "dispatch ''restart:cache'' = Invoke ?restart"
    by (simp add: dispatch_eval string_eval)
  have x: "docker_substrate degraded_docker ?restart (Suc 0) = (Inr ?degraded, Suc (Suc 0))"
    by (simp add: docker_substrate_def s1)
  have s2: "execute_step (docker_substrate degraded_docker) ''restart:cache'' (Suc 0)
      = (?degraded, [?restart], Suc (Suc 0))"
    by (rule a [THEN conjunct2, THEN conjunct1, rule_format, OF d x])
  from s1 d s2 show ?thesis by blast
qed

end
